theory Spec2Isabelle
  imports Main
begin

section \<open>Pod lifecycle reconciliation of the virtual kubelet (vkubelet/pod.go)\<close>

text \<open>
  The controller in \<^verbatim>\<open>vkubelet/pod.go\<close> talks to the provider (CreatePod, DeletePod,
  GetPodStatus), to the Kubernetes client (UpdateStatus, Delete), to the wall clock and
  to the resolution of a pod's environment. None of them is part of the file, so each is
  an oracle of the environment. Every interaction is appended to an event trace, and
  every oracle may depend on the whole trace so far: an answer can change from one call
  to the next. The pod a Go function receives by pointer is passed in and returned
  updated; the provider and the Kubernetes client are taken to read the pod they are
  handed, not to change it. Tracing spans (\<^verbatim>\<open>trace.StartSpan\<close>, \<^verbatim>\<open>span.Annotate\<close>,
  \<^verbatim>\<open>span.SetStatus\<close>) only report and are left out; log entries are kept as events.
\<close>

subsection \<open>Errors\<close>

text \<open>
  A Go \<^verbatim>\<open>error\<close> value is \<open>error option\<close>, \<open>None\<close> for \<^verbatim>\<open>nil\<close>. An error coming from
  a collaborator carries its text and whether its API status reason is NotFound;
  \<^verbatim>\<open>pkgerrors.Wrap\<close> and \<^verbatim>\<open>fmt.Errorf\<close> build the two other forms.
\<close>

datatype error =
    StatusError bool string
  | Wrapped error string
  | Errorf string

fun errorText :: "error \<Rightarrow> string" where
  "errorText (StatusError nf m) = m"
| "errorText (Wrapped e m) = m @ '': '' @ errorText e"
| "errorText (Errorf m) = m"

text \<open>\<^verbatim>\<open>errors.IsNotFound\<close>: false on \<^verbatim>\<open>nil\<close> and on every error that is not an API status.\<close>

fun IsNotFound :: "error option \<Rightarrow> bool" where
  "IsNotFound None = False"
| "IsNotFound (Some (StatusError nf m)) = nf"
| "IsNotFound (Some (Wrapped e m)) = False"
| "IsNotFound (Some (Errorf m)) = False"

subsection \<open>Data model\<close>

text \<open>Instants are nanoseconds on the wall clock; \<^verbatim>\<open>time.Minute\<close> is a duration in nanoseconds.\<close>

type_synonym Time = int

definition Minute :: int where
  "Minute = 60000000000"

record ContainerStateWaiting =
  WaitingReason :: string
  WaitingMessage :: string

record ContainerStateRunning =
  RunningStartedAt :: Time

record ContainerStateTerminated =
  ExitCode :: int
  Signal :: int
  TerminatedReason :: string
  TerminatedMessage :: string
  StartedAt :: Time
  FinishedAt :: Time
  TerminatedContainerID :: string

record ContainerState =
  Waiting :: "ContainerStateWaiting option"
  Running :: "ContainerStateRunning option"
  Terminated :: "ContainerStateTerminated option"

record ContainerStatus =
  ContainerName :: string
  State :: ContainerState
  Ready :: bool
  RestartCount :: int
  ContainerID :: string

record PodStatus =
  Phase :: string
  Reason :: string
  Message :: string
  ContainerStatuses :: "ContainerStatus list"

record Pod =
  Namespace :: string
  Name :: string
  UID :: string
  ResourceVersion :: string
  CreationTimestamp :: Time
  RestartPolicy :: string
  Containers :: "string list"
  Status :: PodStatus

text \<open>The string constants of \<^verbatim>\<open>k8s.io/api/core/v1\<close> that the file compares with.\<close>

definition PodPending :: string where "PodPending = ''Pending''"
definition PodRunning :: string where "PodRunning = ''Running''"
definition PodSucceeded :: string where "PodSucceeded = ''Succeeded''"
definition PodFailed :: string where "PodFailed = ''Failed''"
definition RestartPolicyNever :: string where "RestartPolicyNever = ''Never''"

text \<open>
  Modelled from the spec: the constant \<^verbatim>\<open>podStatusReasonProviderFailed\<close> is declared in
  another file of the package; the specification gives its value, the fixed sentinel
  "ProviderFailed".
\<close>

definition podStatusReasonProviderFailed :: string where
  "podStatusReasonProviderFailed = ''ProviderFailed''"

subsection \<open>Events and the environment\<close>

datatype level = InfoLevel | WarnLevel | ErrorLevel

datatype event =
    PopulateEnvironmentVariables Pod
  | ProviderCreatePod Pod
  | ProviderDeletePod Pod
  | ProviderGetPodStatus string string
  | K8sUpdateStatus Pod
  | K8sDelete string string int
  | TimeNow
  | Log level "(string \<times> string) list" string

type_synonym trace = "event list"

text \<open>
  \<open>populateEnvironmentVariables\<close> is a method of the same server that lives in another
  file; it is taken as a parameter that may change the pod it is given and may fail.
  \<open>providerGetPodStatus\<close> returns Go's pair \<^verbatim>\<open>(status, err)\<close>.
\<close>

record env =
  populateEnvironmentVariables :: "trace \<Rightarrow> Pod \<Rightarrow> error option \<times> Pod"
  providerCreatePod :: "trace \<Rightarrow> Pod \<Rightarrow> error option"
  providerDeletePod :: "trace \<Rightarrow> Pod \<Rightarrow> error option"
  providerGetPodStatus :: "trace \<Rightarrow> string \<Rightarrow> string \<Rightarrow> PodStatus option \<times> error option"
  k8sUpdateStatus :: "trace \<Rightarrow> Pod \<Rightarrow> error option"
  k8sDelete :: "trace \<Rightarrow> string \<Rightarrow> string \<Rightarrow> int \<Rightarrow> error option"
  timeNow :: "trace \<Rightarrow> Time"

text \<open>The logger of createPod and deletePod carries the pod's name and namespace.\<close>

definition podLogger :: "Pod \<Rightarrow> (string \<times> string) list" where
  "podLogger pod = [(''pod'', Name pod), (''namespace'', Namespace pod)]"

subsection \<open>deletePod\<close>

text \<open>
  Lines 68 to 97. The first test returns the provider's error when it is NotFound; the
  second test guards the delete of the Kubernetes record, with grace period zero; the
  inner test on the Kubernetes error is kept as written, including its second branch.
\<close>

definition deletePod :: "env \<Rightarrow> Pod \<Rightarrow> trace \<Rightarrow> error option \<times> trace" where
  "deletePod e pod tr =
     (let delErr = providerDeletePod e tr pod;
          tr1 = tr @ [ProviderDeletePod pod]
      in if delErr \<noteq> None \<and> IsNotFound delErr then (delErr, tr1)
         else if \<not> IsNotFound delErr then
           (let grace = 0;
                err = k8sDelete e tr1 (Namespace pod) (Name pod) grace;
                tr2 = tr1 @ [K8sDelete (Namespace pod) (Name pod) grace]
            in if err \<noteq> None \<and> IsNotFound err then
                 (if IsNotFound err then (None, tr2)
                  else (Some (Errorf (''Failed to delete kubernetes pod: '' @
                          (case err of Some x \<Rightarrow> errorText x | None \<Rightarrow> []))), tr2))
               else (None, tr2 @ [Log InfoLevel (podLogger pod) ''Pod deleted'']))
         else (None, tr1))"

text \<open>Recognises the delete of a Kubernetes record among the events.\<close>

fun isK8sDelete :: "event \<Rightarrow> bool" where
  "isK8sDelete (K8sDelete ns n g) = True"
| "isK8sDelete ev = False"

subsection \<open>createPod\<close>

text \<open>
  Lines 28 to 66. The logger is built after the environment has been resolved, from the
  pod's name and namespace; \<^verbatim>\<open>WithError\<close> adds the field "error".
\<close>

definition createPod :: "env \<Rightarrow> Pod \<Rightarrow> trace \<Rightarrow> error option \<times> Pod \<times> trace" where
  "createPod e pod tr =
     (case populateEnvironmentVariables e tr pod of
        (envErr, pod1) \<Rightarrow>
          (let tr1 = tr @ [PopulateEnvironmentVariables pod]
           in case envErr of
                Some x \<Rightarrow> (Some x, pod1, tr1)
              | None \<Rightarrow>
                  (let logger = podLogger pod1;
                       tr2 = tr1 @ [ProviderCreatePod pod1]
                   in case providerCreatePod e tr1 pod1 of
                        Some origErr \<Rightarrow>
                          (let podPhase = (if RestartPolicy pod1 = RestartPolicyNever
                                           then PodFailed else PodPending);
                               pod2 = pod1\<lparr>ResourceVersion := [],
                                          Status := (Status pod1)\<lparr>Phase := podPhase,
                                            Reason := podStatusReasonProviderFailed,
                                            Message := errorText origErr\<rparr>\<rparr>;
                               tr3 = tr2 @ [K8sUpdateStatus pod2]
                           in case k8sUpdateStatus e tr2 pod2 of
                                Some err \<Rightarrow>
                                  (Some origErr, pod2,
                                   tr3 @ [Log WarnLevel (logger @ [(''error'', errorText err)])
                                            ''Failed to update pod status''])
                              | None \<Rightarrow> (Some origErr, pod2, tr3))
                      | None \<Rightarrow> (None, pod1, tr2 @ [Log InfoLevel logger ''Pod created'']))))"

subsection \<open>updatePodStatus\<close>

text \<open>
  A nil dereference panics: the function then returns nothing, and nothing in the file
  recovers. \<open>Panicked\<close> is that outcome.
\<close>

datatype 'a outcome = Returned 'a | Panicked

text \<open>
  The loop of lines 151 to 161 over \<^verbatim>\<open>pod.Status.ContainerStatuses\<close>. Each round reads the
  clock for \<^verbatim>\<open>FinishedAt\<close> and reads \<^verbatim>\<open>c.State.Running.StartedAt\<close>, which panics when
  \<^verbatim>\<open>Running\<close> is nil; \<^verbatim>\<open>Signal\<close> is not set and keeps Go's zero value, \<^verbatim>\<open>Waiting\<close> is
  not touched.
\<close>

fun terminateContainers ::
  "env \<Rightarrow> ContainerStatus list \<Rightarrow> trace \<Rightarrow> (ContainerStatus list \<times> trace) outcome" where
  "terminateContainers e [] tr = Returned ([], tr)"
| "terminateContainers e (c # cs) tr =
     (let now = timeNow e tr;
          tr1 = tr @ [TimeNow]
      in case Running (State c) of
           None \<Rightarrow> Panicked
         | Some r \<Rightarrow>
             (let c1 = c\<lparr>State := (State c)\<lparr>
                         Terminated := Some \<lparr>ExitCode = - 137, Signal = 0,
                           TerminatedReason = ''NotFound'',
                           TerminatedMessage = ''Container was not found and was likely deleted'',
                           StartedAt = RunningStartedAt r,
                           FinishedAt = now,
                           TerminatedContainerID = ContainerID c\<rparr>,
                         Running := None\<rparr>\<rparr>
              in case terminateContainers e cs tr1 of
                   Panicked \<Rightarrow> Panicked
                 | Returned (cs1, tr2) \<Rightarrow> Returned (c1 # cs1, tr2)))"

text \<open>Lines 148 to 161: the body of the test on the phase and the age of the pod.\<close>

definition markPodNotFound :: "env \<Rightarrow> Pod \<Rightarrow> trace \<Rightarrow> (Pod \<times> trace) outcome" where
  "markPodNotFound e pod tr =
     (case terminateContainers e (ContainerStatuses (Status pod)) tr of
        Panicked \<Rightarrow> Panicked
      | Returned (cs1, tr1) \<Rightarrow>
          Returned (pod\<lparr>Status := (Status pod)\<lparr>Phase := PodFailed,
                      Reason := ''NotFound'',
                      Message := ''The pod status was not found and may have been deleted from the provider'',
                      ContainerStatuses := cs1\<rparr>\<rparr>, tr1))"

text \<open>
  Lines 123 to 175. Go's \<^verbatim>\<open>||\<close> reads the clock only when the phase is not Running.
  The pod returned with an error is the pod as the function left it.
\<close>

definition updatePodStatus ::
  "env \<Rightarrow> Pod \<Rightarrow> trace \<Rightarrow> (error option \<times> Pod \<times> trace) outcome" where
  "updatePodStatus e pod tr =
     (if Phase (Status pod) = PodSucceeded \<or> Phase (Status pod) = PodFailed
         \<or> Reason (Status pod) = podStatusReasonProviderFailed
      then Returned (None, pod, tr)
      else
        (case providerGetPodStatus e tr (Namespace pod) (Name pod) of
           (status, err) \<Rightarrow>
             (let tr1 = tr @ [ProviderGetPodStatus (Namespace pod) (Name pod)]
              in case err of
                   Some x \<Rightarrow> Returned (Some (Wrapped x ''error retreiving pod status''), pod, tr1)
                 | None \<Rightarrow>
                     (case (case status of
                              Some st \<Rightarrow> Returned (pod\<lparr>Status := st\<rparr>, tr1)
                            | None \<Rightarrow>
                                (if Phase (Status pod) = PodRunning
                                 then markPodNotFound e pod tr1
                                 else (let now = timeNow e tr1;
                                           tr2 = tr1 @ [TimeNow]
                                       in if CreationTimestamp pod + Minute < now
                                          then markPodNotFound e pod tr2
                                          else Returned (pod, tr2))))
                      of Panicked \<Rightarrow> Panicked
                       | Returned (pod1, tr3) \<Rightarrow>
                           (case k8sUpdateStatus e tr3 pod1 of
                              Some x \<Rightarrow>
                                Returned (Some (Wrapped x
                                    ''error while updating pod status in kubernetes''),
                                  pod1, tr3 @ [K8sUpdateStatus pod1])
                            | None \<Rightarrow> Returned (None, pod1, tr3 @ [K8sUpdateStatus pod1]))))))"

subsection \<open>updatePodStatuses\<close>

text \<open>
  Lines 100 to 121. The snapshot \<^verbatim>\<open>s.resourceManager.GetPods()\<close> is the list \<open>pods\<close>; the
  pods are updated in place, so the sweep returns the list with every pod as it left it.
  \<open>ctxDone i\<close> is what the non-blocking receive from \<^verbatim>\<open>ctx.Done()\<close> observes before the
  pod at index \<open>i\<close>. The logger of an error carries the pod's name, namespace, phase and
  reason as they are after the update.
\<close>

definition sweepLogger :: "Pod \<Rightarrow> (string \<times> string) list" where
  "sweepLogger pod = [(''pod'', Name pod), (''namespace'', Namespace pod),
                      (''status'', Phase (Status pod)), (''reason'', Reason (Status pod))]"

fun updatePodStatusesFrom ::
  "env \<Rightarrow> (nat \<Rightarrow> bool) \<Rightarrow> nat \<Rightarrow> Pod list \<Rightarrow> trace \<Rightarrow> (Pod list \<times> trace) outcome" where
  "updatePodStatusesFrom e ctxDone i [] tr = Returned ([], tr)"
| "updatePodStatusesFrom e ctxDone i (pod # pods) tr =
     (if ctxDone i then Returned (pod # pods, tr)
      else
        (case updatePodStatus e pod tr of
           Panicked \<Rightarrow> Panicked
         | Returned (err, pod1, tr1) \<Rightarrow>
             (let tr2 = (case err of
                           None \<Rightarrow> tr1
                         | Some x \<Rightarrow> tr1 @ [Log ErrorLevel (sweepLogger pod1) (errorText x)])
              in case updatePodStatusesFrom e ctxDone (Suc i) pods tr2 of
                   Panicked \<Rightarrow> Panicked
                 | Returned (pods1, tr3) \<Rightarrow> Returned (pod1 # pods1, tr3))))"

definition updatePodStatuses ::
  "env \<Rightarrow> (nat \<Rightarrow> bool) \<Rightarrow> Pod list \<Rightarrow> trace \<Rightarrow> (Pod list \<times> trace) outcome" where
  "updatePodStatuses e ctxDone pods tr = updatePodStatusesFrom e ctxDone 0 pods tr"

subsection \<open>Where a sweep stops, and the test of the first minute\<close>

text \<open>
  \<open>cancelIndex ctxDone n\<close> is the number of pods that a sweep over \<open>n\<close> pods starts before
  it sees cancellation: the first index at which \<open>ctxDone\<close> holds, or \<open>n\<close> when there is
  none.
\<close>

definition cancelIndex :: "(nat \<Rightarrow> bool) \<Rightarrow> nat \<Rightarrow> nat" where
  "cancelIndex ctxDone n = length (takeWhile (\<lambda>i. \<not> ctxDone i) [0..<n])"

text \<open>
  The test of line 146 on the age of a pod, when updatePodStatus comes to the pod at the
  trace \<open>t\<close>: the pod is not terminal and not Running, the provider returns neither a
  status nor an error for it, and the clock, read right after the provider's answer, is
  more than one minute past the pod's creation. It is false whenever updatePodStatus
  does not get as far as reading the clock.
\<close>

definition graceTestExpired :: "env \<Rightarrow> Pod \<Rightarrow> trace \<Rightarrow> bool" where
  "graceTestExpired e pod t =
     (Phase (Status pod) \<noteq> PodSucceeded \<and> Phase (Status pod) \<noteq> PodFailed
      \<and> Reason (Status pod) \<noteq> podStatusReasonProviderFailed
      \<and> Phase (Status pod) \<noteq> PodRunning
      \<and> providerGetPodStatus e t (Namespace pod) (Name pod) = (None, None)
      \<and> CreationTimestamp pod + Minute
          < timeNow e (t @ [ProviderGetPodStatus (Namespace pod) (Name pod)]))"

subsection \<open>A container given up as lost\<close>

text \<open>
  What the specification says of a container on the NotFound path, as a relation between
  its status before (\<open>c\<close>) and after (\<open>c1\<close>): it was Running and is now Terminated with
  exit code -137 and reason "NotFound", the start time of its Running state and its
  container identifier are kept, and nothing else of the status has changed.
\<close>

definition notFoundTerminated :: "ContainerStatus \<Rightarrow> ContainerStatus \<Rightarrow> bool" where
  "notFoundTerminated c c1 =
     (case Running (State c) of
        None \<Rightarrow> False
      | Some r \<Rightarrow>
          (case Terminated (State c1) of
             None \<Rightarrow> False
           | Some t \<Rightarrow>
               ExitCode t = - 137 \<and> TerminatedReason t = ''NotFound''
               \<and> StartedAt t = RunningStartedAt r
               \<and> TerminatedContainerID t = ContainerID c
               \<and> c1 = c\<lparr>State := (State c)\<lparr>Terminated := Some t, Running := None\<rparr>\<rparr>))"

subsection \<open>Repeated reconciliation of one pod\<close>

text \<open>
  A sequence of reconciliation steps on one pod, each step under its own environment:
  the pod and the trace of one step are handed to the next, whatever error it returned.
\<close>

fun reconcileSteps :: "env list \<Rightarrow> Pod \<Rightarrow> trace \<Rightarrow> (Pod \<times> trace) outcome" where
  "reconcileSteps [] pod tr = Returned (pod, tr)"
| "reconcileSteps (e # es) pod tr =
     (case updatePodStatus e pod tr of
        Panicked \<Rightarrow> Panicked
      | Returned (err, pod1, tr1) \<Rightarrow> reconcileSteps es pod1 tr1)"

subsection \<open>Concrete pods and environments\<close>

definition pod0 :: Pod where
  "pod0 = \<lparr>Namespace = ''default'', Name = ''nginx-0-x'', UID = ''u0'',
           ResourceVersion = ''7'', CreationTimestamp = 0, RestartPolicy = ''Always'',
           Containers = [''bar''],
           Status = \<lparr>Phase = ''Pending'', Reason = [], Message = [],
                     ContainerStatuses = []\<rparr>\<rparr>"

definition errNotFound :: error where
  "errNotFound = StatusError True ''pod not found''"

definition errBoom :: error where
  "errBoom = StatusError False ''boom''"

definition populateOk :: "trace \<Rightarrow> Pod \<Rightarrow> error option \<times> Pod" where
  "populateOk tr pod = (None, pod)"

definition noError1 :: "trace \<Rightarrow> Pod \<Rightarrow> error option" where
  "noError1 tr pod = None"

definition noStatus :: "trace \<Rightarrow> string \<Rightarrow> string \<Rightarrow> PodStatus option \<times> error option" where
  "noStatus tr ns n = (None, None)"

definition deleteOk :: "trace \<Rightarrow> string \<Rightarrow> string \<Rightarrow> int \<Rightarrow> error option" where
  "deleteOk tr ns n g = None"

definition clockZero :: "trace \<Rightarrow> Time" where
  "clockZero tr = 0"

text \<open>An environment in which every collaborator succeeds and the provider knows no pod.\<close>

definition envOk :: env where
  "envOk = \<lparr>populateEnvironmentVariables = populateOk, providerCreatePod = noError1,
            providerDeletePod = noError1, providerGetPodStatus = noStatus,
            k8sUpdateStatus = noError1, k8sDelete = deleteOk, timeNow = clockZero\<rparr>"

definition failNotFound1 :: "trace \<Rightarrow> Pod \<Rightarrow> error option" where
  "failNotFound1 tr pod = Some errNotFound"

definition failBoom1 :: "trace \<Rightarrow> Pod \<Rightarrow> error option" where
  "failBoom1 tr pod = Some errBoom"

definition deleteBoom :: "trace \<Rightarrow> string \<Rightarrow> string \<Rightarrow> int \<Rightarrow> error option" where
  "deleteBoom tr ns n g = Some errBoom"

text \<open>The provider no longer has the pod.\<close>

definition envProviderNotFound :: env where
  "envProviderNotFound = envOk\<lparr>providerDeletePod := failNotFound1\<rparr>"

text \<open>The provider fails to delete, with an error that is not NotFound.\<close>

definition envProviderDeleteFails :: env where
  "envProviderDeleteFails = envOk\<lparr>providerDeletePod := failBoom1\<rparr>"

text \<open>The provider deletes the pod; the Kubernetes delete fails, not with NotFound.\<close>

definition envK8sDeleteFails :: env where
  "envK8sDeleteFails = envOk\<lparr>k8sDelete := deleteBoom\<rparr>"

text \<open>The provider fails to create the pod and the status write fails as well.\<close>

definition podNever :: Pod where
  "podNever = pod0\<lparr>RestartPolicy := ''Never''\<rparr>"

definition envCreateAndWriteFail :: env where
  "envCreateAndWriteFail =
     envOk\<lparr>providerCreatePod := failBoom1, k8sUpdateStatus := failNotFound1\<rparr>"



text \<open>A pod that has failed; a pending pod whose container is still being created.\<close>

definition podFailed :: Pod where
  "podFailed = pod0\<lparr>Status := (Status pod0)\<lparr>Phase := ''Failed''\<rparr>\<rparr>"

definition waitingContainer :: ContainerStatus where
  "waitingContainer = \<lparr>ContainerName = ''bar'',
     State = \<lparr>Waiting = Some \<lparr>WaitingReason = ''ContainerCreating'', WaitingMessage = []\<rparr>,
               Running = None, Terminated = None\<rparr>,
     Ready = False, RestartCount = 0, ContainerID = []\<rparr>"

definition podWaiting :: Pod where
  "podWaiting = pod0\<lparr>Status := (Status pod0)\<lparr>ContainerStatuses := [waitingContainer]\<rparr>\<rparr>"

text \<open>Two minutes after the creation of \<open>pod0\<close>; the provider knows no pod.\<close>

definition clockLate :: "trace \<Rightarrow> Time" where
  "clockLate tr = 120000000000"

definition envLate :: env where
  "envLate = envOk\<lparr>timeNow := clockLate\<rparr>"

text \<open>Contexts: never cancelled; cancelled when the sweep reaches the third pod.\<close>

definition neverDone :: "nat \<Rightarrow> bool" where
  "neverDone i = False"

definition doneFromTwo :: "nat \<Rightarrow> bool" where
  "doneFromTwo i = (2 \<le> i)"

text \<open>The provider fails to report any status.\<close>

definition statusFails :: "trace \<Rightarrow> string \<Rightarrow> string \<Rightarrow> PodStatus option \<times> error option" where
  "statusFails tr ns n = (None, Some errBoom)"

definition envStatusFails :: env where
  "envStatusFails = envOk\<lparr>providerGetPodStatus := statusFails\<rparr>"

definition twoFailures :: trace where
  "twoFailures =
     [ProviderGetPodStatus ''default'' ''nginx-0-x'',
      Log ErrorLevel [(''pod'', ''nginx-0-x''), (''namespace'', ''default''),
                      (''status'', ''Pending''), (''reason'', [])]
        ''error retreiving pod status: boom'',
      ProviderGetPodStatus ''default'' ''nginx-0-x'',
      Log ErrorLevel [(''pod'', ''nginx-0-x''), (''namespace'', ''default''),
                      (''status'', ''Pending''), (''reason'', [])]
        ''error retreiving pod status: boom'']"

text \<open>
  A clock that reads thirty seconds during the first three interactions and ninety
  seconds afterwards: the first sweep over \<open>pod0\<close> falls before the end of its first
  minute, the second sweep after it.
\<close>

definition clockAdvances :: "trace \<Rightarrow> Time" where
  "clockAdvances tr = (if length tr < 3 then 30000000000 else 90000000000)"

definition envClockAdvances :: env where
  "envClockAdvances = envOk\<lparr>timeNow := clockAdvances\<rparr>"

definition pod0NotFound :: Pod where
  "pod0NotFound = pod0\<lparr>Status := \<lparr>Phase = ''Failed'', Reason = ''NotFound'',
      Message = ''The pod status was not found and may have been deleted from the provider'',
      ContainerStatuses = []\<rparr>\<rparr>"

definition firstPassTrace :: trace where
  "firstPassTrace =
     [ProviderGetPodStatus ''default'' ''nginx-0-x'', TimeNow, K8sUpdateStatus pod0]"

text \<open>
  A running pod with one running container, and the same pod after the provider has
  lost it: Failed, with the container Terminated.
\<close>

definition runningContainer :: ContainerStatus where
  "runningContainer = \<lparr>ContainerName = ''bar'',
     State = \<lparr>Waiting = None, Running = Some \<lparr>RunningStartedAt = 5\<rparr>, Terminated = None\<rparr>,
     Ready = True, RestartCount = 0, ContainerID = ''docker://abc''\<rparr>"

definition podRunning :: Pod where
  "podRunning = pod0\<lparr>Status := \<lparr>Phase = ''Running'', Reason = [], Message = [],
                                   ContainerStatuses = [runningContainer]\<rparr>\<rparr>"

definition lostContainer :: ContainerStatus where
  "lostContainer = \<lparr>ContainerName = ''bar'',
     State = \<lparr>Waiting = None, Running = None,
               Terminated = Some \<lparr>ExitCode = - 137, Signal = 0,
                 TerminatedReason = ''NotFound'',
                 TerminatedMessage = ''Container was not found and was likely deleted'',
                 StartedAt = 5, FinishedAt = 0,
                 TerminatedContainerID = ''docker://abc''\<rparr>\<rparr>,
     Ready = True, RestartCount = 0, ContainerID = ''docker://abc''\<rparr>"

definition podLost :: Pod where
  "podLost = pod0\<lparr>Status := \<lparr>Phase = ''Failed'', Reason = ''NotFound'',
      Message = ''The pod status was not found and may have been deleted from the provider'',
      ContainerStatuses = [lostContainer]\<rparr>\<rparr>"

text \<open>The trace of a sweep over \<open>pod0\<close> alone, two minutes after its creation.\<close>

definition lateTrace :: trace where
  "lateTrace =
     [ProviderGetPodStatus ''default'' ''nginx-0-x'', TimeNow, K8sUpdateStatus pod0NotFound]"

text \<open>
  A context that is cancelled from the start, and a provider that reports every pod as
  running, with the status of \<open>podRunning\<close>.
\<close>

definition alwaysDone :: "nat \<Rightarrow> bool" where
  "alwaysDone i = True"

definition knownRunning :: "trace \<Rightarrow> string \<Rightarrow> string \<Rightarrow> PodStatus option \<times> error option" where
  "knownRunning tr ns n =
     (Some \<lparr>Phase = ''Running'', Reason = [], Message = [],
            ContainerStatuses = [runningContainer]\<rparr>, None)"

definition envKnownRunning :: env where
  "envKnownRunning = envOk\<lparr>providerGetPodStatus := knownRunning\<rparr>"

text \<open>The trace of a first sweep over \<open>pod0\<close> and \<open>podRunning\<close> when the provider knows neither.\<close>

definition pendingAndLostTrace :: trace where
  "pendingAndLostTrace =
     [ProviderGetPodStatus ''default'' ''nginx-0-x'', TimeNow, K8sUpdateStatus pod0,
      ProviderGetPodStatus ''default'' ''nginx-0-x'', TimeNow, K8sUpdateStatus podLost]"

section \<open>Properties of deletePod\<close>

text \<open>
  C1 (as stated, refuted): when the provider reports NotFound, deletePod is claimed to
  return that error and still delete the Kubernetes record. At the pod \<open>pod0\<close>, with a
  provider answering NotFound, deletePod returns the error after the provider call alone:
  the trace holds no delete of the Kubernetes record.
\<close>

theorem C1_notfound_skips_k8s_delete_counterexample:
  "deletePod envProviderNotFound pod0 [] = (Some errNotFound, [ProviderDeletePod pod0])
   \<and> filter isK8sDelete (snd (deletePod envProviderNotFound pod0 [])) = []"
  by (simp add: deletePod_def envProviderNotFound_def envOk_def failNotFound1_def
      errNotFound_def)

text \<open>
  C1 (amended): when the provider reports NotFound, deletePod returns that NotFound error
  to its caller and does not attempt the delete of the Kubernetes record: its only
  interaction is the provider call. When the provider succeeds, exactly one delete of the
  Kubernetes record is attempted, for the pod's namespace and name with grace period
  zero, right after the provider call.
\<close>

theorem C1_delete_notfound_and_success:
  "(providerDeletePod e tr pod = Some x \<and> IsNotFound (Some x)
      \<longrightarrow> deletePod e pod tr = (Some x, tr @ [ProviderDeletePod pod]))
   \<and> (providerDeletePod e tr pod = None
      \<longrightarrow> take (length tr + 2) (snd (deletePod e pod tr))
            = tr @ [ProviderDeletePod pod, K8sDelete (Namespace pod) (Name pod) 0]
          \<and> length (filter isK8sDelete (snd (deletePod e pod tr)))
            = length (filter isK8sDelete tr) + 1)"
  by (simp add: deletePod_def Let_def)

theorem C1_delete_notfound_and_success_witness:
  "(providerDeletePod envProviderNotFound [] pod0 = Some errNotFound
      \<and> IsNotFound (Some errNotFound)
      \<and> deletePod envProviderNotFound pod0 [] = (Some errNotFound, [ProviderDeletePod pod0]))
   \<and> (providerDeletePod envOk [] pod0 = None
      \<and> take 2 (snd (deletePod envOk pod0 []))
          = [ProviderDeletePod pod0, K8sDelete (Namespace pod0) (Name pod0) 0]
      \<and> length (filter isK8sDelete (snd (deletePod envOk pod0 []))) = 1)"
  using C1_delete_notfound_and_success [of envProviderNotFound "[]" pod0 errNotFound]
    C1_delete_notfound_and_success [of envOk "[]" pod0]
  by (simp add: envProviderNotFound_def envOk_def failNotFound1_def noError1_def
      errNotFound_def numeral_2_eq_2)

text \<open>
  C2 (the code departs from the claim): a provider failure that is not NotFound should
  reach the caller of deletePod. At \<open>pod0\<close>, with a provider failing with the error
  \<open>errBoom\<close>, deletePod goes on to delete the Kubernetes record, logs the deletion and
  returns no error.
\<close>

theorem C2_provider_failure_swallowed:
  "\<not> IsNotFound (Some errBoom)
   \<and> deletePod envProviderDeleteFails pod0 []
     = (None, [ProviderDeletePod pod0, K8sDelete ''default'' ''nginx-0-x'' 0,
               Log InfoLevel [(''pod'', ''nginx-0-x''), (''namespace'', ''default'')]
                 ''Pod deleted''])"
  by (simp add: deletePod_def envProviderDeleteFails_def envOk_def failBoom1_def
      errBoom_def deleteOk_def pod0_def podLogger_def)

text \<open>
  C6 (the code departs from the claim): a failure of the Kubernetes delete that is not
  NotFound should reach the caller. At \<open>pod0\<close>, with the provider succeeding and the
  Kubernetes delete failing with \<open>errBoom\<close>, deletePod logs the deletion and returns no
  error.
\<close>

theorem C6_k8s_delete_failure_swallowed:
  "\<not> IsNotFound (Some errBoom)
   \<and> deletePod envK8sDeleteFails pod0 []
     = (None, [ProviderDeletePod pod0, K8sDelete ''default'' ''nginx-0-x'' 0,
               Log InfoLevel [(''pod'', ''nginx-0-x''), (''namespace'', ''default'')]
                 ''Pod deleted''])"
  by (simp add: deletePod_def envK8sDeleteFails_def envOk_def noError1_def
      errBoom_def deleteBoom_def pod0_def podLogger_def)

section \<open>Properties of createPod\<close>

text \<open>
  C5: when the provider fails to create the pod, createPod clears the resource version,
  sets the phase to Failed for the restart policy "Never" and to Pending otherwise, sets
  the reason to "ProviderFailed" and the message to the text of the provider's error,
  writes the status to the Kubernetes record exactly once, logs a warning when that write
  fails and does nothing more about it, and returns the provider's error.
\<close>

theorem C5_create_failure:
  assumes "populateEnvironmentVariables e tr pod = (None, pod1)"
    and "providerCreatePod e (tr @ [PopulateEnvironmentVariables pod]) pod1 = Some origErr"
    and "createPod e pod tr = (res, pod2, tr2)"
  shows "res = Some origErr
    \<and> ResourceVersion pod2 = []
    \<and> Phase (Status pod2) = (if RestartPolicy pod1 = ''Never'' then ''Failed'' else ''Pending'')
    \<and> Reason (Status pod2) = ''ProviderFailed''
    \<and> Message (Status pod2) = errorText origErr
    \<and> tr2 = tr @ [PopulateEnvironmentVariables pod, ProviderCreatePod pod1, K8sUpdateStatus pod2]
           @ (case k8sUpdateStatus e
                     (tr @ [PopulateEnvironmentVariables pod, ProviderCreatePod pod1]) pod2 of
                None \<Rightarrow> []
              | Some err \<Rightarrow> [Log WarnLevel (podLogger pod1 @ [(''error'', errorText err)])
                              ''Failed to update pod status''])"
  using assms
  by (auto simp add: createPod_def Let_def RestartPolicyNever_def PodFailed_def PodPending_def
      podStatusReasonProviderFailed_def split: option.splits)

theorem C5_create_failure_witness:
  "populateEnvironmentVariables envCreateAndWriteFail [] podNever = (None, podNever)
   \<and> providerCreatePod envCreateAndWriteFail [PopulateEnvironmentVariables podNever] podNever
       = Some errBoom
   \<and> fst (createPod envCreateAndWriteFail podNever []) = Some errBoom
   \<and> Phase (Status (fst (snd (createPod envCreateAndWriteFail podNever [])))) = ''Failed''
   \<and> Reason (Status (fst (snd (createPod envCreateAndWriteFail podNever [])))) = ''ProviderFailed''
   \<and> Message (Status (fst (snd (createPod envCreateAndWriteFail podNever [])))) = ''boom''
   \<and> ResourceVersion (fst (snd (createPod envCreateAndWriteFail podNever []))) = []"
  using C5_create_failure [of envCreateAndWriteFail "[]" podNever podNever errBoom
      "fst (createPod envCreateAndWriteFail podNever [])"
      "fst (snd (createPod envCreateAndWriteFail podNever []))"
      "snd (snd (createPod envCreateAndWriteFail podNever []))"]
  by (simp add: envCreateAndWriteFail_def envOk_def populateOk_def failBoom1_def
      podNever_def pod0_def errBoom_def)



section \<open>Properties of updatePodStatus\<close>

lemma reconcileSteps_terminal:
  "Phase (Status pod) = PodSucceeded \<or> Phase (Status pod) = PodFailed
     \<or> Reason (Status pod) = podStatusReasonProviderFailed
   \<Longrightarrow> reconcileSteps es pod tr = Returned (pod, tr)"
  by (induction es) (simp_all add: updatePodStatus_def)

text \<open>
  C4: for a pod whose phase is Succeeded or Failed, or whose reason is "ProviderFailed",
  updatePodStatus returns no error, leaves the pod as it is and interacts with nobody
  (the trace is unchanged: no provider call and no write); so any sequence of
  reconciliation steps, under any environments, leaves the pod as it is.
\<close>

theorem C4_terminal_noop:
  assumes "Phase (Status pod) = PodSucceeded \<or> Phase (Status pod) = PodFailed
     \<or> Reason (Status pod) = podStatusReasonProviderFailed"
  shows "updatePodStatus e pod tr = Returned (None, pod, tr)
     \<and> reconcileSteps es pod tr = Returned (pod, tr)"
  using assms reconcileSteps_terminal [of pod es tr] by (simp add: updatePodStatus_def)

theorem C4_terminal_noop_witness:
  "Phase (Status podFailed) = PodFailed
   \<and> updatePodStatus envLate podFailed [] = Returned (None, podFailed, [])
   \<and> reconcileSteps [envLate, envOk, envLate] podFailed [] = Returned (podFailed, [])"
proof -
  have h: "Phase (Status podFailed) = PodFailed"
    by (simp add: podFailed_def PodFailed_def)
  from C4_terminal_noop [of podFailed envLate "[]" "[envLate, envOk, envLate]"] h
  show ?thesis by blast
qed

lemma terminateContainers_panics:
  "terminateContainers e cs tr = Panicked \<longleftrightarrow> (\<exists>c \<in> set cs. Running (State c) = None)"
proof (induction cs arbitrary: tr)
  case Nil
  show ?case by simp
next
  case (Cons c cs)
  show ?case
  proof (cases "Running (State c)")
    case None
    then show ?thesis by simp
  next
    case (Some r)
    have "terminateContainers e (c # cs) tr = Panicked
          \<longleftrightarrow> terminateContainers e cs (tr @ [TimeNow]) = Panicked"
      using Some by (simp add: Let_def split: outcome.splits)
    also have "\<dots> \<longleftrightarrow> (\<exists>c \<in> set cs. Running (State c) = None)"
      by (rule Cons.IH)
    finally show ?thesis using Some by simp
  qed
qed

lemma markPodNotFound_panics:
  "markPodNotFound e pod tr = Panicked
   \<longleftrightarrow> (\<exists>c \<in> set (ContainerStatuses (Status pod)). Running (State c) = None)"
  using terminateContainers_panics [of e "ContainerStatuses (Status pod)" tr]
  by (auto simp add: markPodNotFound_def split: outcome.splits)

text \<open>
  C9: on the path where the provider returns no status and no error for a pod that is
  not terminal, and the pod is Running or older than one minute, updatePodStatus panics
  exactly when some entry of the pod's container statuses has no Running state: the
  read of \<^verbatim>\<open>c.State.Running.StartedAt\<close> is defined only when every entry is Running.
\<close>

theorem C9_nil_running_panics:
  assumes "Phase (Status pod) \<noteq> PodSucceeded" and "Phase (Status pod) \<noteq> PodFailed"
    and "Reason (Status pod) \<noteq> podStatusReasonProviderFailed"
    and "providerGetPodStatus e tr (Namespace pod) (Name pod) = (None, None)"
    and "Phase (Status pod) = PodRunning
         \<or> CreationTimestamp pod + Minute
             < timeNow e (tr @ [ProviderGetPodStatus (Namespace pod) (Name pod)])"
  shows "updatePodStatus e pod tr = Panicked
         \<longleftrightarrow> (\<exists>c \<in> set (ContainerStatuses (Status pod)). Running (State c) = None)"
proof -
  let ?tr1 = "tr @ [ProviderGetPodStatus (Namespace pod) (Name pod)]"
  have "\<exists>t. updatePodStatus e pod tr =
          (case markPodNotFound e pod t of
             Panicked \<Rightarrow> Panicked
           | Returned (pod1, tr3) \<Rightarrow>
               (case k8sUpdateStatus e tr3 pod1 of
                  Some x \<Rightarrow>
                    Returned (Some (Wrapped x ''error while updating pod status in kubernetes''),
                      pod1, tr3 @ [K8sUpdateStatus pod1])
                | None \<Rightarrow> Returned (None, pod1, tr3 @ [K8sUpdateStatus pod1])))"
  proof (cases "Phase (Status pod) = PodRunning")
    case True
    with assms(1-4) have "updatePodStatus e pod tr =
          (case markPodNotFound e pod ?tr1 of
             Panicked \<Rightarrow> Panicked
           | Returned (pod1, tr3) \<Rightarrow>
               (case k8sUpdateStatus e tr3 pod1 of
                  Some x \<Rightarrow>
                    Returned (Some (Wrapped x ''error while updating pod status in kubernetes''),
                      pod1, tr3 @ [K8sUpdateStatus pod1])
                | None \<Rightarrow> Returned (None, pod1, tr3 @ [K8sUpdateStatus pod1])))"
      by (simp add: updatePodStatus_def)
    then show ?thesis by blast
  next
    case False
    with assms have "updatePodStatus e pod tr =
          (case markPodNotFound e pod (?tr1 @ [TimeNow]) of
             Panicked \<Rightarrow> Panicked
           | Returned (pod1, tr3) \<Rightarrow>
               (case k8sUpdateStatus e tr3 pod1 of
                  Some x \<Rightarrow>
                    Returned (Some (Wrapped x ''error while updating pod status in kubernetes''),
                      pod1, tr3 @ [K8sUpdateStatus pod1])
                | None \<Rightarrow> Returned (None, pod1, tr3 @ [K8sUpdateStatus pod1])))"
      by (simp add: updatePodStatus_def)
    then show ?thesis by blast
  qed
  then obtain t where eq: "updatePodStatus e pod tr =
          (case markPodNotFound e pod t of
             Panicked \<Rightarrow> Panicked
           | Returned (pod1, tr3) \<Rightarrow>
               (case k8sUpdateStatus e tr3 pod1 of
                  Some x \<Rightarrow>
                    Returned (Some (Wrapped x ''error while updating pod status in kubernetes''),
                      pod1, tr3 @ [K8sUpdateStatus pod1])
                | None \<Rightarrow> Returned (None, pod1, tr3 @ [K8sUpdateStatus pod1])))"
    by blast
  have "updatePodStatus e pod tr = Panicked \<longleftrightarrow> markPodNotFound e pod t = Panicked"
    unfolding eq by (cases "markPodNotFound e pod t") (auto split: option.splits)
  then show ?thesis by (simp add: markPodNotFound_panics)
qed

theorem C9_nil_running_panics_witness:
  "Phase (Status podWaiting) \<noteq> PodSucceeded \<and> Phase (Status podWaiting) \<noteq> PodFailed
   \<and> Reason (Status podWaiting) \<noteq> podStatusReasonProviderFailed
   \<and> providerGetPodStatus envLate [] (Namespace podWaiting) (Name podWaiting) = (None, None)
   \<and> CreationTimestamp podWaiting + Minute
       < timeNow envLate ([] @ [ProviderGetPodStatus (Namespace podWaiting) (Name podWaiting)])
   \<and> Running (State waitingContainer) = None
   \<and> waitingContainer \<in> set (ContainerStatuses (Status podWaiting))
   \<and> updatePodStatus envLate podWaiting [] = Panicked"
  using C9_nil_running_panics [of podWaiting envLate "[]"]
  by (simp add: podWaiting_def pod0_def envLate_def envOk_def noStatus_def clockLate_def
      Minute_def PodSucceeded_def PodFailed_def podStatusReasonProviderFailed_def
      waitingContainer_def)

text \<open>
  C3 (the code departs from the claim): a pod that is not terminal, unknown to the
  provider and older than one minute should become Failed with every container
  Terminated. At \<open>podWaiting\<close>, a Pending pod created two minutes ago whose only
  container is Waiting, updatePodStatus panics instead.
\<close>

theorem C3_waiting_container_panics:
  "Phase (Status podWaiting) = PodPending
   \<and> providerGetPodStatus envLate [] (Namespace podWaiting) (Name podWaiting) = (None, None)
   \<and> CreationTimestamp podWaiting + Minute < timeNow envLate [ProviderGetPodStatus ''default'' ''nginx-0-x'']
   \<and> updatePodStatus envLate podWaiting [] = Panicked"
  by (simp add: updatePodStatus_def markPodNotFound_def podWaiting_def pod0_def envLate_def envOk_def noStatus_def clockLate_def
      Minute_def PodSucceeded_def PodFailed_def PodRunning_def PodPending_def podStatusReasonProviderFailed_def
      waitingContainer_def)

text \<open>
  Where every container status is Running the NotFound path does not panic: a pod that
  is not terminal and unknown to the provider becomes Failed with reason "NotFound" and
  every container given up as lost if it is Running or older than one minute, and is
  left as it is otherwise.
\<close>

lemma terminateContainers_running:
  "\<forall>c \<in> set cs. Running (State c) \<noteq> None
   \<Longrightarrow> \<exists>cs1 tr1. terminateContainers e cs tr = Returned (cs1, tr1)
         \<and> list_all2 notFoundTerminated cs cs1"
proof (induction cs arbitrary: tr)
  case Nil
  show ?case by simp
next
  case (Cons c cs)
  from Cons.prems obtain r where r: "Running (State c) = Some r" by auto
  from Cons.prems have "\<forall>c \<in> set cs. Running (State c) \<noteq> None" by simp
  from Cons.IH [OF this, of "tr @ [TimeNow]"] obtain cs1 tr1
    where "terminateContainers e cs (tr @ [TimeNow]) = Returned (cs1, tr1)"
      and "list_all2 notFoundTerminated cs cs1" by blast
  moreover have "notFoundTerminated c
      (c\<lparr>State := (State c)\<lparr>
          Terminated := Some \<lparr>ExitCode = - 137, Signal = 0,
            TerminatedReason = ''NotFound'',
            TerminatedMessage = ''Container was not found and was likely deleted'',
            StartedAt = RunningStartedAt r,
            FinishedAt = timeNow e tr,
            TerminatedContainerID = ContainerID c\<rparr>,
          Running := None\<rparr>\<rparr>)"
    using r by (simp add: notFoundTerminated_def)
  ultimately show ?case using r by (simp add: Let_def)
qed

lemma updatePodStatus_lost_running:
  assumes "Phase (Status pod) \<noteq> PodSucceeded" and "Phase (Status pod) \<noteq> PodFailed"
    and "Reason (Status pod) \<noteq> podStatusReasonProviderFailed"
    and "providerGetPodStatus e tr (Namespace pod) (Name pod) = (None, None)"
    and "\<forall>c \<in> set (ContainerStatuses (Status pod)). Running (State c) \<noteq> None"
  shows "if Phase (Status pod) = PodRunning
            \<or> CreationTimestamp pod + Minute
                < timeNow e (tr @ [ProviderGetPodStatus (Namespace pod) (Name pod)])
         then \<exists>r pod1 tr1. updatePodStatus e pod tr = Returned (r, pod1, tr1)
                \<and> Phase (Status pod1) = ''Failed'' \<and> Reason (Status pod1) = ''NotFound''
                \<and> list_all2 notFoundTerminated (ContainerStatuses (Status pod))
                     (ContainerStatuses (Status pod1))
         else \<exists>r tr1. updatePodStatus e pod tr = Returned (r, pod, tr1)"
proof -
  have mark: "\<And>t. \<exists>pod1 tr1. markPodNotFound e pod t = Returned (pod1, tr1)
                \<and> Phase (Status pod1) = ''Failed'' \<and> Reason (Status pod1) = ''NotFound''
                \<and> list_all2 notFoundTerminated (ContainerStatuses (Status pod))
                     (ContainerStatuses (Status pod1))"
  proof -
    fix t
    from terminateContainers_running [OF assms(5), of e t] obtain cs1 tr1
      where "terminateContainers e (ContainerStatuses (Status pod)) t = Returned (cs1, tr1)"
        and "list_all2 notFoundTerminated (ContainerStatuses (Status pod)) cs1" by blast
    then show "\<exists>pod1 tr1. markPodNotFound e pod t = Returned (pod1, tr1)
                \<and> Phase (Status pod1) = ''Failed'' \<and> Reason (Status pod1) = ''NotFound''
                \<and> list_all2 notFoundTerminated (ContainerStatuses (Status pod))
                     (ContainerStatuses (Status pod1))"
      by (simp add: markPodNotFound_def PodFailed_def)
  qed
  show ?thesis
  proof (cases "Phase (Status pod) = PodRunning")
    case True
    from mark [of "tr @ [ProviderGetPodStatus (Namespace pod) (Name pod)]"]
    show ?thesis using True assms(1-4)
      by (auto simp add: updatePodStatus_def Let_def split: option.splits)
  next
    case False
    from mark [of "tr @ [ProviderGetPodStatus (Namespace pod) (Name pod), TimeNow]"]
    show ?thesis using False assms(1-4)
      by (auto simp add: updatePodStatus_def Let_def split: option.splits)
  qed
qed

section \<open>Properties of updatePodStatuses\<close>

lemma cancelIndex_le: "cancelIndex ctxDone n \<le> n"
  unfolding cancelIndex_def using length_takeWhile_le [of "\<lambda>i. \<not> ctxDone i" "[0..<n]"] by simp

lemma cancelIndex_before: "j < cancelIndex ctxDone n \<Longrightarrow> \<not> ctxDone j"
proof -
  assume j: "j < cancelIndex ctxDone n"
  let ?xs = "[0..<n]"
  let ?P = "\<lambda>i. \<not> ctxDone i"
  from j have "j < length (takeWhile ?P ?xs)" by (simp add: cancelIndex_def)
  then have "?P (takeWhile ?P ?xs ! j)" by (metis nth_mem set_takeWhileD)
  moreover have "takeWhile ?P ?xs ! j = ?xs ! j"
    using j by (simp add: cancelIndex_def takeWhile_nth)
  moreover have "j < n" using j cancelIndex_le [of ctxDone n] by simp
  ultimately show ?thesis by simp
qed

lemma cancelIndex_at: "cancelIndex ctxDone n < n \<Longrightarrow> ctxDone (cancelIndex ctxDone n)"
proof -
  assume lt: "cancelIndex ctxDone n < n"
  let ?xs = "[0..<n]"
  let ?P = "\<lambda>i. \<not> ctxDone i"
  from lt have "length (takeWhile ?P ?xs) < length ?xs" by (simp add: cancelIndex_def)
  then have "\<not> ?P (?xs ! length (takeWhile ?P ?xs))" by (rule nth_length_takeWhile)
  then show ?thesis using lt by (simp add: cancelIndex_def)
qed

lemma cancelIndex_reaches:
  assumes "j < n" and "\<forall>m \<le> j. \<not> ctxDone m"
  shows "j < cancelIndex ctxDone n"
proof (rule ccontr)
  assume "\<not> j < cancelIndex ctxDone n"
  then have le: "cancelIndex ctxDone n \<le> j" by simp
  then have "cancelIndex ctxDone n < n" using assms(1) by simp
  then have "ctxDone (cancelIndex ctxDone n)" by (rule cancelIndex_at)
  then show False using assms(2) le by blast
qed

text \<open>
  C7 (the code departs from the claim): a failure of updatePodStatus for one pod should
  be logged and the sweep should go on; cancellation alone should cut the sweep short.
  For the snapshot of \<open>podWaiting\<close> followed by \<open>pod0\<close>, two minutes after their creation
  and with cancellation never seen, the failure on \<open>podWaiting\<close> is a panic: the sweep ends
  there, logs nothing and never comes to \<open>pod0\<close>, which a sweep over \<open>pod0\<close> alone updates.
\<close>

theorem C7_sweep_aborted_by_panic:
  "cancelIndex neverDone (length [podWaiting, pod0]) = 2
   \<and> updatePodStatuses envLate neverDone [podWaiting, pod0] [] = Panicked
   \<and> updatePodStatuses envLate neverDone [pod0] [] = Returned ([pod0NotFound], lateTrace)"
proof -
  have k: "cancelIndex neverDone (length [podWaiting, pod0]) = 2"
    by (simp add: cancelIndex_def neverDone_def upt_rec)
  have p: "updatePodStatuses envLate neverDone [podWaiting, pod0] [] = Panicked"
    by (simp add: updatePodStatuses_def updatePodStatus_def markPodNotFound_def
        neverDone_def podWaiting_def pod0_def envLate_def envOk_def noStatus_def
        clockLate_def Minute_def PodSucceeded_def PodFailed_def PodRunning_def
        podStatusReasonProviderFailed_def waitingContainer_def)
  have r: "updatePodStatuses envLate neverDone [pod0] [] = Returned ([pod0NotFound], lateTrace)"
    by (simp add: updatePodStatuses_def updatePodStatus_def markPodNotFound_def
        neverDone_def pod0_def pod0NotFound_def lateTrace_def envLate_def envOk_def
        noStatus_def noError1_def clockLate_def Minute_def PodSucceeded_def PodFailed_def
        PodRunning_def podStatusReasonProviderFailed_def)
  from k p r show ?thesis by simp
qed

text \<open>
  Errors that updatePodStatus returns do not end the sweep. With a provider that fails
  to report any status, a sweep over three pods that sees cancellation before the third
  logs the error of the first pod, goes on to the second, logs its error and stops.
\<close>

lemma sweep_logs_errors_until_cancelled:
  "updatePodStatuses envStatusFails doneFromTwo [pod0, pod0, pod0] []
     = Returned ([pod0, pod0, pod0], twoFailures)"
proof -
  have one: "\<And>t. updatePodStatus envStatusFails pod0 t
      = Returned (Some (Wrapped errBoom ''error retreiving pod status''), pod0,
                  t @ [ProviderGetPodStatus ''default'' ''nginx-0-x''])"
    by (simp add: updatePodStatus_def envStatusFails_def envOk_def statusFails_def pod0_def
        PodSucceeded_def PodFailed_def podStatusReasonProviderFailed_def)
  show ?thesis
    by (simp add: updatePodStatuses_def one doneFromTwo_def sweepLogger_def errBoom_def
        twoFailures_def) (simp add: pod0_def)
qed

text \<open>
  In general, where no update panics the sweep returns: updatePodStatus has been applied
  to each pod before the first boundary at which cancellation is seen, whatever errors
  it returned, and the pods from that boundary on are untouched.
\<close>

lemma updatePodStatusesFrom_without_panic:
  "\<forall>p \<in> set pods. \<forall>t. updatePodStatus e p t \<noteq> Panicked
   \<Longrightarrow> \<exists>pods1 tr1. updatePodStatusesFrom e ctxDone i pods tr = Returned (pods1, tr1)
         \<and> list_all2 (\<lambda>p p1. \<exists>t r t1. updatePodStatus e p t = Returned (r, p1, t1))
              (take (length (takeWhile (\<lambda>j. \<not> ctxDone j) [i..<i + length pods])) pods)
              (take (length (takeWhile (\<lambda>j. \<not> ctxDone j) [i..<i + length pods])) pods1)
         \<and> drop (length (takeWhile (\<lambda>j. \<not> ctxDone j) [i..<i + length pods])) pods1
           = drop (length (takeWhile (\<lambda>j. \<not> ctxDone j) [i..<i + length pods])) pods"
proof (induction pods arbitrary: i tr)
  case Nil
  show ?case by simp
next
  case (Cons pod pods)
  have upt: "[i..<i + length (pod # pods)] = i # [Suc i..<Suc i + length pods]"
    using upt_conv_Cons [of i "i + Suc (length pods)"] by simp
  show ?case
  proof (cases "ctxDone i")
    case True
    then show ?thesis unfolding upt by simp
  next
    case False
    from Cons.prems obtain r pod1 t1 where one: "updatePodStatus e pod tr = Returned (r, pod1, t1)"
      by (cases "updatePodStatus e pod tr") auto
    let ?t2 = "case r of None \<Rightarrow> t1
               | Some x \<Rightarrow> t1 @ [Log ErrorLevel (sweepLogger pod1) (errorText x)]"
    let ?k = "length (takeWhile (\<lambda>j. \<not> ctxDone j) [Suc i..<Suc i + length pods])"
    from Cons.prems have "\<forall>p \<in> set pods. \<forall>t. updatePodStatus e p t \<noteq> Panicked" by simp
    from Cons.IH [OF this, of "Suc i" ?t2] obtain rest tr1
      where rest: "updatePodStatusesFrom e ctxDone (Suc i) pods ?t2 = Returned (rest, tr1)"
        and upd: "list_all2 (\<lambda>p p1. \<exists>t r t1. updatePodStatus e p t = Returned (r, p1, t1))
                    (take ?k pods) (take ?k rest)"
        and untouched: "drop ?k rest = drop ?k pods"
      by blast
    have "updatePodStatusesFrom e ctxDone i (pod # pods) tr = Returned (pod1 # rest, tr1)"
      using False one rest by (simp add: Let_def)
    moreover have "\<exists>t r t1. updatePodStatus e pod t = Returned (r, pod1, t1)"
      using one by blast
    ultimately show ?thesis
      unfolding upt using False upd untouched by simp
  qed
qed

text \<open>
  C8 (as stated, refuted): with the provider's answers fixed, a second sweep is claimed to
  change no phase. First, for \<open>pod0\<close>, Pending and unknown to the provider, the first
  sweep at thirty seconds leaves the pod Pending, and the second sweep at ninety
  seconds, with the same answer of the provider, makes it Failed. Second, with a
  provider that reports \<open>pod0\<close> as running, a first sweep that is cancelled at once
  leaves the pod Pending and the second sweep makes it Running.
\<close>

theorem C8_second_pass_changes_phase_counterexample:
  "providerGetPodStatus envClockAdvances [] ''default'' ''nginx-0-x''
     = providerGetPodStatus envClockAdvances firstPassTrace ''default'' ''nginx-0-x''
   \<and> updatePodStatuses envClockAdvances neverDone [pod0] [] = Returned ([pod0], firstPassTrace)
   \<and> updatePodStatuses envClockAdvances neverDone [pod0] firstPassTrace
     = Returned ([pod0NotFound],
         firstPassTrace @ [ProviderGetPodStatus ''default'' ''nginx-0-x'', TimeNow,
                           K8sUpdateStatus pod0NotFound])
   \<and> Phase (Status pod0) = ''Pending'' \<and> Phase (Status pod0NotFound) = ''Failed''
   \<and> updatePodStatuses envKnownRunning alwaysDone [pod0] [] = Returned ([pod0], [])
   \<and> updatePodStatuses envKnownRunning neverDone [pod0] []
     = Returned ([podRunning],
         [ProviderGetPodStatus ''default'' ''nginx-0-x'', K8sUpdateStatus podRunning])
   \<and> Phase (Status podRunning) = ''Running''"
proof -
  have grace: "updatePodStatuses envClockAdvances neverDone [pod0] []
        = Returned ([pod0], firstPassTrace)
      \<and> updatePodStatuses envClockAdvances neverDone [pod0] firstPassTrace
        = Returned ([pod0NotFound],
            firstPassTrace @ [ProviderGetPodStatus ''default'' ''nginx-0-x'', TimeNow,
                              K8sUpdateStatus pod0NotFound])"
    by (simp add: updatePodStatuses_def updatePodStatus_def markPodNotFound_def
        envClockAdvances_def envOk_def noStatus_def noError1_def clockAdvances_def
        neverDone_def firstPassTrace_def pod0NotFound_def pod0_def Minute_def
        PodSucceeded_def PodFailed_def PodRunning_def podStatusReasonProviderFailed_def)
  have cancelled: "updatePodStatuses envKnownRunning alwaysDone [pod0] [] = Returned ([pod0], [])"
    by (simp add: updatePodStatuses_def alwaysDone_def)
  have second: "updatePodStatuses envKnownRunning neverDone [pod0] []
      = Returned ([podRunning],
          [ProviderGetPodStatus ''default'' ''nginx-0-x'', K8sUpdateStatus podRunning])"
    by (simp add: updatePodStatuses_def updatePodStatus_def envKnownRunning_def envOk_def
        knownRunning_def noError1_def neverDone_def podRunning_def pod0_def
        PodSucceeded_def PodFailed_def podStatusReasonProviderFailed_def)
  have rest: "providerGetPodStatus envClockAdvances [] ''default'' ''nginx-0-x''
       = providerGetPodStatus envClockAdvances firstPassTrace ''default'' ''nginx-0-x''
     \<and> Phase (Status pod0) = ''Pending'' \<and> Phase (Status pod0NotFound) = ''Failed''
     \<and> Phase (Status podRunning) = ''Running''"
    by (simp add: envClockAdvances_def envOk_def noStatus_def pod0_def pod0NotFound_def
        podRunning_def)
  from grace cancelled second rest show ?thesis by simp
qed

lemma markPodNotFound_phase:
  "markPodNotFound e pod tr = Returned (pod1, tr1) \<Longrightarrow> Phase (Status pod1) = PodFailed"
  by (auto simp add: markPodNotFound_def split: outcome.splits)

lemma updatePodStatus_terminal:
  "Phase (Status pod) = PodSucceeded \<or> Phase (Status pod) = PodFailed
     \<or> Reason (Status pod) = podStatusReasonProviderFailed
   \<Longrightarrow> updatePodStatus e pod tr = Returned (None, pod, tr)"
  by (simp add: updatePodStatus_def)

lemma updatePodStatus_settled:
  assumes fixed: "\<forall>t t' ns n. providerGetPodStatus e t ns n = providerGetPodStatus e t' ns n"
    and first: "updatePodStatus e pod tr = Returned (r, pod1, tr1)"
    and grace: "\<not> graceTestExpired e pod1 tr2"
  shows "\<exists>r2 tr3. updatePodStatus e pod1 tr2 = Returned (r2, pod1, tr3)"
proof (cases "Phase (Status pod1) = PodSucceeded \<or> Phase (Status pod1) = PodFailed
     \<or> Reason (Status pod1) = podStatusReasonProviderFailed")
  case True
  then show ?thesis using updatePodStatus_terminal by blast
next
  case live1: False
  have live: "\<not> (Phase (Status pod) = PodSucceeded \<or> Phase (Status pod) = PodFailed
     \<or> Reason (Status pod) = podStatusReasonProviderFailed)"
  proof
    assume t: "Phase (Status pod) = PodSucceeded \<or> Phase (Status pod) = PodFailed
     \<or> Reason (Status pod) = podStatusReasonProviderFailed"
    then have "pod1 = pod" using first by (simp add: updatePodStatus_def)
    then show False using live1 t by simp
  qed
  obtain st err where got: "providerGetPodStatus e tr (Namespace pod) (Name pod) = (st, err)"
    by (cases "providerGetPodStatus e tr (Namespace pod) (Name pod)")
  then have got2: "providerGetPodStatus e tr2 (Namespace pod) (Name pod) = (st, err)"
    using fixed by metis
  show ?thesis
  proof (cases err)
    case (Some x)
    then have "pod1 = pod" using first live got by (simp add: updatePodStatus_def Let_def)
    then show ?thesis using live got2 Some by (simp add: updatePodStatus_def Let_def)
  next
    case None
    show ?thesis
    proof (cases st)
      case (Some s)
      then have p1: "pod1 = pod\<lparr>Status := s\<rparr>"
        using first live got None
        by (auto simp add: updatePodStatus_def Let_def split: option.splits)
      then show ?thesis using live1 got2 None Some
        by (auto simp add: updatePodStatus_def Let_def split: option.splits)
    next
      case noStatus: None
      show ?thesis
      proof (cases "Phase (Status pod) = PodRunning")
        case True
        then have "Phase (Status pod1) = PodFailed"
          using first live got None noStatus
          by (auto simp add: updatePodStatus_def Let_def split: option.splits outcome.splits
              dest: markPodNotFound_phase)
        then show ?thesis using live1 by simp
      next
        case notRunning: False
        let ?t1 = "tr @ [ProviderGetPodStatus (Namespace pod) (Name pod)]"
        show ?thesis
        proof (cases "CreationTimestamp pod + Minute < timeNow e ?t1")
          case True
          then have "Phase (Status pod1) = PodFailed"
            using first live got None noStatus notRunning
            by (auto simp add: updatePodStatus_def Let_def split: option.splits outcome.splits
                dest: markPodNotFound_phase)
          then show ?thesis using live1 by simp
        next
          case False
          then have p1: "pod1 = pod"
            using first live got None noStatus notRunning
            by (auto simp add: updatePodStatus_def Let_def split: option.splits outcome.splits)
          have "\<not> CreationTimestamp pod + Minute
                  < timeNow e (tr2 @ [ProviderGetPodStatus (Namespace pod) (Name pod)])"
            using grace p1 live notRunning got2 None noStatus
            by (simp add: graceTestExpired_def)
          then show ?thesis using p1 live got2 None noStatus notRunning
            by (auto simp add: updatePodStatus_def Let_def split: option.splits)
        qed
      qed
    qed
  qed
qed

lemma second_sweep_settled:
  assumes fixed: "\<forall>t t' ns n. providerGetPodStatus e t ns n = providerGetPodStatus e t' ns n"
  shows "updatePodStatusesFrom e c1 i pods tr = Returned (pods1, tr1)
    \<Longrightarrow> (\<forall>j. i \<le> j \<and> j < i + length pods \<and> (\<forall>m. i \<le> m \<and> m \<le> j \<longrightarrow> \<not> c2 m) \<longrightarrow> \<not> c1 j)
    \<Longrightarrow> (\<forall>k ps t. k < length pods1 \<and> (\<forall>m. i \<le> m \<and> m \<le> i + k \<longrightarrow> \<not> c2 m)
              \<and> updatePodStatusesFrom e c2 i (take k pods1) T = Returned (ps, t)
            \<longrightarrow> \<not> graceTestExpired e (pods1 ! k) t)
    \<Longrightarrow> \<exists>T1. updatePodStatusesFrom e c2 i pods1 T = Returned (pods1, T1)"
proof (induction pods arbitrary: i tr pods1 T)
  case Nil
  then show ?case by simp
next
  case (Cons pod pods)
  show ?case
  proof (cases "c2 i")
    case True
    then show ?thesis by (cases pods1) simp_all
  next
    case False
    have nc1: "\<not> c1 i" using Cons.prems(2) False by auto
    obtain r pod1 t1 where one: "updatePodStatus e pod tr = Returned (r, pod1, t1)"
      using Cons.prems(1) nc1 by (auto split: outcome.splits)
    obtain rest where rest: "updatePodStatusesFrom e c1 (Suc i) pods
          (case r of None \<Rightarrow> t1
           | Some x \<Rightarrow> t1 @ [Log ErrorLevel (sweepLogger pod1) (errorText x)])
          = Returned (rest, tr1)"
      and p1: "pods1 = pod1 # rest"
      using Cons.prems(1) nc1 one by (auto simp add: Let_def split: outcome.splits)
    have "\<forall>m. i \<le> m \<and> m \<le> i + 0 \<longrightarrow> \<not> c2 m" using False by auto
    moreover have "updatePodStatusesFrom e c2 i (take 0 pods1) T = Returned ([], T)" by simp
    moreover have "0 < length pods1" using p1 by simp
    ultimately have "\<not> graceTestExpired e (pods1 ! 0) T"
      using Cons.prems(3) by blast
    then have g0: "\<not> graceTestExpired e pod1 T" using p1 by simp
    from updatePodStatus_settled [OF fixed one g0] obtain r2 t3
      where two: "updatePodStatus e pod1 T = Returned (r2, pod1, t3)" by blast
    let ?T2 = "case r2 of None \<Rightarrow> t3
               | Some x \<Rightarrow> t3 @ [Log ErrorLevel (sweepLogger pod1) (errorText x)]"
    have cancel: "\<forall>j. Suc i \<le> j \<and> j < Suc i + length pods
                     \<and> (\<forall>m. Suc i \<le> m \<and> m \<le> j \<longrightarrow> \<not> c2 m) \<longrightarrow> \<not> c1 j"
    proof (intro allI impI)
      fix j
      assume j: "Suc i \<le> j \<and> j < Suc i + length pods \<and> (\<forall>m. Suc i \<le> m \<and> m \<le> j \<longrightarrow> \<not> c2 m)"
      have "\<forall>m. i \<le> m \<and> m \<le> j \<longrightarrow> \<not> c2 m"
      proof (intro allI impI)
        fix m assume m: "i \<le> m \<and> m \<le> j"
        show "\<not> c2 m"
        proof (cases "m = i")
          case True
          then show ?thesis using False by simp
        next
          case False
          then have "Suc i \<le> m" using m by simp
          then show ?thesis using j m by blast
        qed
      qed
      moreover have "i \<le> j \<and> j < i + length (pod # pods)" using j by simp
      ultimately show "\<not> c1 j" using Cons.prems(2) by blast
    qed
    have time: "\<forall>k ps t. k < length rest \<and> (\<forall>m. Suc i \<le> m \<and> m \<le> Suc i + k \<longrightarrow> \<not> c2 m)
              \<and> updatePodStatusesFrom e c2 (Suc i) (take k rest) ?T2 = Returned (ps, t)
            \<longrightarrow> \<not> graceTestExpired e (rest ! k) t"
    proof (intro allI impI)
      fix k ps t
      assume a: "k < length rest \<and> (\<forall>m. Suc i \<le> m \<and> m \<le> Suc i + k \<longrightarrow> \<not> c2 m)
              \<and> updatePodStatusesFrom e c2 (Suc i) (take k rest) ?T2 = Returned (ps, t)"
      have run: "updatePodStatusesFrom e c2 i (take (Suc k) pods1) T = Returned (pod1 # ps, t)"
        using a p1 False two by (simp add: Let_def)
      have nd: "\<forall>m. i \<le> m \<and> m \<le> i + Suc k \<longrightarrow> \<not> c2 m"
      proof (intro allI impI)
        fix m assume m: "i \<le> m \<and> m \<le> i + Suc k"
        show "\<not> c2 m"
        proof (cases "m = i")
          case True
          then show ?thesis using False by simp
        next
          case False
          then have "Suc i \<le> m \<and> m \<le> Suc i + k" using m by simp
          then show ?thesis using a by blast
        qed
      qed
      have "Suc k < length pods1" using a p1 by simp
      with nd run Cons.prems(3) have "\<not> graceTestExpired e (pods1 ! Suc k) t" by blast
      then show "\<not> graceTestExpired e (rest ! k) t" using p1 by simp
    qed
    from Cons.IH [OF rest cancel time] obtain T1
      where "updatePodStatusesFrom e c2 (Suc i) rest ?T2 = Returned (rest, T1)" by blast
    then show ?thesis using False two p1 by (simp add: Let_def)
  qed
qed

text \<open>
  C8 (amended): with the provider's answers fixed, if the first sweep returns, the second
  sweep goes no further into the snapshot than the first did (it sees cancellation no
  later; so in particular when the first sweep is not cancelled), and the second sweep
  never finds a first minute over (whenever it comes to a pod that is not terminal, not
  Running and unknown to the provider, the clock it reads is at most one minute past the
  pod's creation), then the second sweep returns and leaves every pod as the first sweep
  left it; in particular its phase, reason and message.
\<close>

theorem C8_second_pass_changes_nothing:
  assumes "\<forall>t t' ns n. providerGetPodStatus e t ns n = providerGetPodStatus e t' ns n"
    and "updatePodStatuses e ctxDone1 pods tr = Returned (pods1, tr1)"
    and "cancelIndex ctxDone2 (length pods) \<le> cancelIndex ctxDone1 (length pods)"
    and "\<forall>k ps t. k < length pods1 \<and> (\<forall>m \<le> k. \<not> ctxDone2 m)
            \<and> updatePodStatuses e ctxDone2 (take k pods1) tr1 = Returned (ps, t)
          \<longrightarrow> \<not> graceTestExpired e (pods1 ! k) t"
  shows "\<exists>pods2 tr2. updatePodStatuses e ctxDone2 pods1 tr1 = Returned (pods2, tr2)
     \<and> pods2 = pods1
     \<and> map (\<lambda>p. (Phase (Status p), Reason (Status p), Message (Status p))) pods2
       = map (\<lambda>p. (Phase (Status p), Reason (Status p), Message (Status p))) pods1"
proof -
  have first: "updatePodStatusesFrom e ctxDone1 0 pods tr = Returned (pods1, tr1)"
    using assms(2) by (simp add: updatePodStatuses_def)
  have cancel: "\<forall>j. 0 \<le> j \<and> j < 0 + length pods \<and> (\<forall>m. 0 \<le> m \<and> m \<le> j \<longrightarrow> \<not> ctxDone2 m)
                  \<longrightarrow> \<not> ctxDone1 j"
  proof (intro allI impI)
    fix j
    assume j: "0 \<le> j \<and> j < 0 + length pods \<and> (\<forall>m. 0 \<le> m \<and> m \<le> j \<longrightarrow> \<not> ctxDone2 m)"
    then have "j < cancelIndex ctxDone2 (length pods)"
      using cancelIndex_reaches [of j "length pods" ctxDone2] by simp
    then have "j < cancelIndex ctxDone1 (length pods)" using assms(3) by simp
    then show "\<not> ctxDone1 j" by (rule cancelIndex_before)
  qed
  have time: "\<forall>k ps t. k < length pods1 \<and> (\<forall>m. 0 \<le> m \<and> m \<le> 0 + k \<longrightarrow> \<not> ctxDone2 m)
              \<and> updatePodStatusesFrom e ctxDone2 0 (take k pods1) tr1 = Returned (ps, t)
            \<longrightarrow> \<not> graceTestExpired e (pods1 ! k) t"
    using assms(4) by (simp add: updatePodStatuses_def)
  from second_sweep_settled [OF assms(1) first cancel time]
  show ?thesis by (simp add: updatePodStatuses_def)
qed

theorem C8_second_pass_changes_nothing_witness:
  "updatePodStatuses envOk neverDone [pod0, podRunning] []
     = Returned ([pod0, podLost], pendingAndLostTrace)
   \<and> cancelIndex doneFromTwo (length [pod0, podRunning])
       \<le> cancelIndex neverDone (length [pod0, podRunning])
   \<and> (\<exists>tr2. updatePodStatuses envOk doneFromTwo [pod0, podLost] pendingAndLostTrace
              = Returned ([pod0, podLost], tr2))"
proof -
  have h1: "\<forall>t t' ns n. providerGetPodStatus envOk t ns n = providerGetPodStatus envOk t' ns n"
    by (simp add: envOk_def noStatus_def)
  have h2: "updatePodStatuses envOk neverDone [pod0, podRunning] []
      = Returned ([pod0, podLost], pendingAndLostTrace)"
    by (simp add: updatePodStatuses_def updatePodStatus_def markPodNotFound_def
        envOk_def noStatus_def noError1_def clockZero_def neverDone_def
        podRunning_def runningContainer_def podLost_def lostContainer_def
        pendingAndLostTrace_def pod0_def Minute_def PodSucceeded_def PodFailed_def
        PodRunning_def podStatusReasonProviderFailed_def)
  have h3: "cancelIndex doneFromTwo (length [pod0, podRunning])
      \<le> cancelIndex neverDone (length [pod0, podRunning])"
    by (simp add: cancelIndex_def doneFromTwo_def neverDone_def upt_rec)
  have young: "\<And>p t. CreationTimestamp p = 0 \<Longrightarrow> \<not> graceTestExpired envOk p t"
    by (simp add: graceTestExpired_def envOk_def clockZero_def Minute_def)
  have h4: "\<forall>k ps t. k < length [pod0, podLost] \<and> (\<forall>m \<le> k. \<not> doneFromTwo m)
            \<and> updatePodStatuses envOk doneFromTwo (take k [pod0, podLost]) pendingAndLostTrace
                = Returned (ps, t)
          \<longrightarrow> \<not> graceTestExpired envOk ([pod0, podLost] ! k) t"
  proof (intro allI impI)
    fix k ps t
    assume "k < length [pod0, podLost] \<and> (\<forall>m \<le> k. \<not> doneFromTwo m)
            \<and> updatePodStatuses envOk doneFromTwo (take k [pod0, podLost]) pendingAndLostTrace
                = Returned (ps, t)"
    then have "k = 0 \<or> k = 1" by auto
    then have "CreationTimestamp ([pod0, podLost] ! k) = 0"
      by (auto simp add: pod0_def podLost_def)
    then show "\<not> graceTestExpired envOk ([pod0, podLost] ! k) t" by (rule young)
  qed
  from C8_second_pass_changes_nothing [OF h1 h2 h3 h4] h2 h3
  show ?thesis by blast
qed

end
